theory Spec2Isabelle
  imports Main "HOL-Library.Sublist" "HOL-Library.Word"
begin

section \<open>The WUT temperature exporter\<close>

text \<open>
  A shallow embedding of \<^verbatim>\<open>main.go\<close> of the exporter. The file holds two revisions of
  the program; the model follows the second, current one (the one with the logger, the
  retry budget and the retry callback). The two revisions agree in the loop of
  \<^verbatim>\<open>Collect\<close> and in the HTTP handler; the first one sets no \<^verbatim>\<open>Retries\<close>, no
  \<^verbatim>\<open>OnRetry\<close> and logs nothing.

  Go strings are byte sequences, so a Go \<^verbatim>\<open>string\<close> and a \<^verbatim>\<open>[]uint8\<close> are both a
  \<^typ>\<open>string\<close> here: a list of 8-bit characters.
\<close>

subsection \<open>Functions of the Go standard library that the program calls\<close>

text \<open>
  \<^verbatim>\<open>strings.Contains(s, substr)\<close>: \<^verbatim>\<open>substr\<close> occurs in \<^verbatim>\<open>s\<close> as a run of bytes.
\<close>

fun Contains :: "string \<Rightarrow> string \<Rightarrow> bool" where
  "Contains [] substr = (substr = [])"
| "Contains (x # xs) substr = (prefix substr (x # xs) \<or> Contains xs substr)"

text \<open>
  \<^verbatim>\<open>strings.ReplaceAll(s, old, new)\<close> for a non-empty \<^verbatim>\<open>old\<close>: the non-overlapping
  occurrences of \<^verbatim>\<open>old\<close> are replaced from left to right. (With an empty \<^verbatim>\<open>old\<close> Go
  inserts \<^verbatim>\<open>new\<close> at every rune boundary; the program never does that and the function
  is left unspecified there.)
\<close>

fun ReplaceAll :: "string \<Rightarrow> string \<Rightarrow> string \<Rightarrow> string" where
  "ReplaceAll [] (c # cs) new = []"
| "ReplaceAll (x # xs) (c # cs) new =
     (if prefix (c # cs) (x # xs)
      then new @ ReplaceAll (drop (length cs) xs) (c # cs) new
      else x # ReplaceAll xs (c # cs) new)"

text \<open>
  \<^verbatim>\<open>strings.TrimSpace(s)\<close> removes the leading and the trailing white space runes of
  \<^verbatim>\<open>s\<close>, as \<^verbatim>\<open>unicode.IsSpace\<close> defines them: U+0009 to U+000D, U+0020, U+0085, U+00A0,
  U+1680, U+2000 to U+200A, U+2028, U+2029, U+202F, U+205F and U+3000. Go decodes a rune
  only from its shortest UTF-8 encoding (anything else is the rune U+FFFD of width 1, which
  is no white space), so trimming is the removal of these byte sequences.
\<close>

definition space_runes :: "string list" where
  "space_runes =
     [[CHR 0x09], [CHR 0x0A], [CHR 0x0B], [CHR 0x0C], [CHR 0x0D], [CHR 0x20],
      [CHR 0xC2, CHR 0x85], [CHR 0xC2, CHR 0xA0],
      [CHR 0xE1, CHR 0x9A, CHR 0x80],
      [CHR 0xE2, CHR 0x80, CHR 0x80], [CHR 0xE2, CHR 0x80, CHR 0x81],
      [CHR 0xE2, CHR 0x80, CHR 0x82], [CHR 0xE2, CHR 0x80, CHR 0x83],
      [CHR 0xE2, CHR 0x80, CHR 0x84], [CHR 0xE2, CHR 0x80, CHR 0x85],
      [CHR 0xE2, CHR 0x80, CHR 0x86], [CHR 0xE2, CHR 0x80, CHR 0x87],
      [CHR 0xE2, CHR 0x80, CHR 0x88], [CHR 0xE2, CHR 0x80, CHR 0x89],
      [CHR 0xE2, CHR 0x80, CHR 0x8A],
      [CHR 0xE2, CHR 0x80, CHR 0xA8], [CHR 0xE2, CHR 0x80, CHR 0xA9],
      [CHR 0xE2, CHR 0x80, CHR 0xAF],
      [CHR 0xE2, CHR 0x81, CHR 0x9F],
      [CHR 0xE3, CHR 0x80, CHR 0x80]]"

text \<open>
  \<open>strip_leading rs s\<close> removes from the front of \<open>s\<close> every byte sequence of \<open>rs\<close>, until
  none of them is a prefix of what is left.
\<close>

fun strip_leading :: "string list \<Rightarrow> string \<Rightarrow> string" where
  "strip_leading rs [] = []"
| "strip_leading rs (c # s) =
     (case find (\<lambda>e. prefix e (c # s)) rs of
        None \<Rightarrow> c # s
      | Some e \<Rightarrow> strip_leading rs (drop (length e - 1) s))"

definition TrimLeftSpace :: "string \<Rightarrow> string" where
  "TrimLeftSpace s = strip_leading space_runes s"

definition TrimRightSpace :: "string \<Rightarrow> string" where
  "TrimRightSpace s = rev (strip_leading (map rev space_runes) (rev s))"

definition TrimSpace :: "string \<Rightarrow> string" where
  "TrimSpace s = TrimRightSpace (TrimLeftSpace s)"

text \<open>
  \<^verbatim>\<open>strconv.Itoa(i)\<close>: the decimal digits of \<^verbatim>\<open>i\<close>, after a minus sign when it is
  negative.
\<close>

fun digits10 :: "nat \<Rightarrow> string" where
  "digits10 n =
     (if n < 10 then [''0123456789'' ! n]
      else digits10 (n div 10) @ [''0123456789'' ! (n mod 10)])"

definition Itoa :: "int \<Rightarrow> string" where
  "Itoa i = (if i < 0 then CHR ''-'' # digits10 (nat (- i)) else digits10 (nat i))"

text \<open>
  Three library functions are parameters of the model, since their results rest on the
  Unicode case tables and on binary floating point: \<^verbatim>\<open>strconv.ParseFloat(s, 32)\<close>
  (\<open>None\<close> when Go returns an error, syntax or range), \<^verbatim>\<open>strings.ToLower\<close> and
  \<^verbatim>\<open>strings.EqualFold\<close>. \<open>'f\<close> is the type of the float values.
\<close>

record 'f stdlib =
  ParseFloat32 :: "string \<Rightarrow> 'f option"
  ToLower :: "string \<Rightarrow> string"
  EqualFold :: "string \<Rightarrow> string \<Rightarrow> bool"

subsection \<open>The data of the program\<close>

record Target =
  IP :: string
  Room :: string

record config =
  Targets :: "Target list"
  Community :: string

record Collector =
  Ip :: string
  Community :: string
  Room :: string

text \<open>
  The fields of \<^verbatim>\<open>gosnmp.GoSNMP\<close> that \<^verbatim>\<open>Collect\<close> sets. \<^verbatim>\<open>Timeout\<close> is a
  \<^verbatim>\<open>time.Duration\<close>, a count of nanoseconds.
\<close>

datatype SnmpVersion = Version1 | Version2c | Version3

record GoSNMP =
  Community :: string
  Version :: SnmpVersion
  Target :: string
  Port :: "16 word"
  Transport :: string
  Timeout :: int
  MaxRepetitions :: "32 word"
  Retries :: int

definition Second :: int where
  "Second = 1000000000"

text \<open>
  The dynamic value of a walked variable binding: the type switch of \<^verbatim>\<open>Collect\<close> has a
  case for \<^verbatim>\<open>string\<close> and one for \<^verbatim>\<open>[]uint8\<close>; every other dynamic type (the integers,
  \<^verbatim>\<open>nil\<close>, the floats, \<^verbatim>\<open>bool\<close>) falls through it unread.
\<close>

datatype pdu_value = StringVal string | BytesVal string | OtherVal

record SnmpPDU =
  Name :: string
  Value :: pdu_value

text \<open>
  The network, as the program meets it through the SNMP library: \<^verbatim>\<open>Connect\<close> returns an
  error or none; \<^verbatim>\<open>WalkAll\<close> calls the \<^verbatim>\<open>OnRetry\<close> callback some number of times and
  returns an error or the walked variable bindings. A Go \<^verbatim>\<open>error\<close> is its message.
\<close>

type_synonym error = string

record network =
  Connect :: "GoSNMP \<Rightarrow> error option"
  WalkAll :: "GoSNMP \<Rightarrow> string \<Rightarrow> nat \<times> (error + SnmpPDU list)"

text \<open>
  What a scrape does besides answering, in order: the log entries (level, message and
  fields) and the calls of the SNMP library.
\<close>

datatype level = WarnLevel | ErrorLevel

datatype event =
    Log level string "(string \<times> string) list"
  | SnmpConnect GoSNMP
  | SnmpWalkAll GoSNMP string
  | SnmpClose

record 'f Sample =
  room_label :: string
  sensor_label :: string
  val :: 'f

subsection \<open>Collect\<close>

text \<open>
  The session that \<^verbatim>\<open>Collect\<close> sets up (lines 210 to 219) and the subtree it walks
  (line 230).
\<close>

definition snmp_session :: "Collector \<Rightarrow> GoSNMP" where
  "snmp_session c =
     \<lparr>GoSNMP.Community = Collector.Community c,
      Version = Version1,
      Target = Ip c,
      Port = 161,
      Transport = ''udp'',
      Timeout = 30 * Second,
      MaxRepetitions = 50,
      Retries = 3\<rparr>"

definition walk_oid :: string where
  "walk_oid = ''1.3.6.1.4.1.5040.1.2.6.1.3.1.1''"

text \<open>
  The body of the range loop, from the type switch to the float conversion (lines 237 to
  253): the text of the leaf, the check for the sentinel, the decimal comma, the trimming
  and the conversion. \<open>None\<close> is a \<^verbatim>\<open>continue\<close>.
\<close>

definition leaf_text :: "pdu_value \<Rightarrow> string" where
  "leaf_text v = (case v of StringVal s \<Rightarrow> s | BytesVal b \<Rightarrow> b | OtherVal \<Rightarrow> [])"

definition parse :: "'f stdlib \<Rightarrow> pdu_value \<Rightarrow> 'f option" where
  "parse L v =
     (let data = leaf_text v in
      if Contains data ''--'' then None
      else let data = TrimSpace (ReplaceAll data '','' ''.'')
           in ParseFloat32 L data)"

text \<open>
  The range loop (lines 236 to 266): \<open>x\<close> is the index of the element at the head of the
  remaining slice. A Go slice has fewer than \<open>2 ^ 63\<close> elements, so \<^verbatim>\<open>x+1\<close> does not wrap.
\<close>

fun collect_loop :: "'f stdlib \<Rightarrow> Collector \<Rightarrow> nat \<Rightarrow> SnmpPDU list \<Rightarrow> 'f Sample list" where
  "collect_loop L c x [] = []"
| "collect_loop L c x (p # ps) =
     (case parse L (Value p) of
        None \<Rightarrow> collect_loop L c (x + 1) ps
      | Some floatValue \<Rightarrow>
          \<lparr>room_label = ToLower L (Collector.Room c), sensor_label = Itoa (int x + 1),
           val = floatValue\<rparr>
            # collect_loop L c (x + 1) ps)"

text \<open>
  \<^verbatim>\<open>Collect\<close> (lines 209 to 268): the samples sent on the channel and the events, in
  order. The deferred \<^verbatim>\<open>Close\<close> runs on every return after a successful \<^verbatim>\<open>Connect\<close>.
\<close>

definition Collector_Collect :: "'f stdlib \<Rightarrow> network \<Rightarrow> Collector \<Rightarrow> 'f Sample list \<times> event list" where
  "Collector_Collect L net c =
     (let snmp = snmp_session c in
      case Connect net snmp of
        Some err \<Rightarrow>
          ([], [SnmpConnect snmp,
                Log ErrorLevel ''Error connecting to SNMP target''
                  [(''ip'', Ip c), (''error'', err)]])
      | None \<Rightarrow>
          (case WalkAll net snmp walk_oid of
             (retries, Inl err) \<Rightarrow>
               ([], [SnmpConnect snmp, SnmpWalkAll snmp walk_oid]
                    @ replicate retries (Log WarnLevel ''SNMP retry'' [(''ip'', Ip c)])
                    @ [Log ErrorLevel ''Error walking SNMP data''
                         [(''ip'', Ip c), (''error'', err)],
                       SnmpClose])
           | (retries, Inr data) \<Rightarrow>
               (collect_loop L c 0 data,
                [SnmpConnect snmp, SnmpWalkAll snmp walk_oid]
                  @ replicate retries (Log WarnLevel ''SNMP retry'' [(''ip'', Ip c)])
                  @ [SnmpClose])))"

subsection \<open>The HTTP handler\<close>

text \<open>
  \<^verbatim>\<open>url.Values\<close> is a map from a parameter name to its values; indexing a missing name
  gives the empty slice, and \<^verbatim>\<open>Get\<close> gives the first value or the empty string.
\<close>

type_synonym Values = "string \<rightharpoonup> string list"

definition values_of :: "Values \<Rightarrow> string \<Rightarrow> string list" where
  "values_of query key = (case query key of None \<Rightarrow> [] | Some vs \<Rightarrow> vs)"

definition Get :: "Values \<Rightarrow> string \<Rightarrow> string" where
  "Get query key = (case values_of query key of [] \<Rightarrow> [] | v # _ \<Rightarrow> v)"

text \<open>
  The answer: \<^verbatim>\<open>http.Error\<close> writes a status code and a message; the exposition handler
  writes status 200 and the samples gathered from the registry (their serialisation and
  their order in the body are the handler's and are not modelled).
\<close>

datatype 'f body = Message string | Exposition "'f Sample list"

record 'f response =
  StatusCode :: nat
  Body :: "'f body"

definition StatusBadRequest :: nat where
  "StatusBadRequest = 400"

definition StatusOK :: nat where
  "StatusOK = 200"

text \<open>
  The resolution loop (lines 306 to 314): \<open>(room, ip)\<close> of the first target that matches,
  or two empty strings.
\<close>

fun resolve :: "'f stdlib \<Rightarrow> Target list \<Rightarrow> string \<Rightarrow> string \<times> string" where
  "resolve L [] target = ([], [])"
| "resolve L (x # xs) target =
     (if EqualFold L (Target.Room x) target \<or> IP x = target then (Target.Room x, IP x)
      else resolve L xs target)"

text \<open>
  The handler (lines 294 to 325). The registry and the exposition handler are created
  anew in every call; registering the collector and serving the request gather the
  samples of one run of \<^verbatim>\<open>Collect\<close>.
\<close>

definition handler ::
  "'f stdlib \<Rightarrow> network \<Rightarrow> config \<Rightarrow> Values \<Rightarrow> 'f response \<times> event list" where
  "handler L net cfg query =
     (let target = Get query ''target'' in
      if length (values_of query ''target'') \<noteq> 1 \<or> target = [] then
        (\<lparr>StatusCode = StatusBadRequest,
          Body = Message (CHR 0x27 # ''target'' @ CHR 0x27 # '' parameter must be specified once'')\<rparr>,
         [])
      else
        (case resolve L (Targets cfg) target of
           (room, ip) \<Rightarrow>
             if ip = [] then
               (\<lparr>StatusCode = 404, Body = Message ''Not found''\<rparr>,
                [Log ErrorLevel ''No target found'' [(''target'', target)]])
             else
               (let c = \<lparr>Ip = ip, Collector.Community = config.Community cfg, Room = room\<rparr>;
                    (metrics, events) = Collector_Collect L net c
                in (\<lparr>StatusCode = StatusOK, Body = Exposition metrics\<rparr>, events))))"

subsection \<open>The components of the specification, read off the code\<close>

text \<open>
  The match policy of the resolution loop: the condition of its \<^verbatim>\<open>if\<close> (line 309).
\<close>

definition matches :: "'f stdlib \<Rightarrow> string \<Rightarrow> Target \<Rightarrow> bool" where
  "matches L target x = (EqualFold L (Target.Room x) target \<or> IP x = target)"

text \<open>
  The resolver as the handler reads the loop (line 316): an empty address is the signal for
  "not found" (\<open>None\<close>), anything else is the resolved record.
\<close>

definition resolve_target :: "'f stdlib \<Rightarrow> Target list \<Rightarrow> string \<Rightarrow> Target option" where
  "resolve_target L ts key =
     (case resolve L ts key of
        (room, ip) \<Rightarrow> if ip = [] then None else Some \<lparr>IP = ip, Room = room\<rparr>)"


text \<open>
  A request that passes the validation of the handler (line 298): one value of
  \<^verbatim>\<open>target\<close>, and not the empty one.
\<close>

definition well_formed :: "Values \<Rightarrow> bool" where
  "well_formed query =
     (case values_of query ''target'' of [v] \<Rightarrow> v \<noteq> [] | _ \<Rightarrow> False)"

text \<open>
  The walker fails: \<^verbatim>\<open>Connect\<close> returns an error, or \<^verbatim>\<open>WalkAll\<close> does.
\<close>

definition walker_fails :: "network \<Rightarrow> Collector \<Rightarrow> bool" where
  "walker_fails net c =
     (case Connect net (snmp_session c) of
        Some err \<Rightarrow> True
      | None \<Rightarrow> isl (snd (WalkAll net (snmp_session c) walk_oid)))"

text \<open>The events that are calls of the SNMP library.\<close>

fun is_snmp_call :: "event \<Rightarrow> bool" where
  "is_snmp_call (Log l m fs) = False"
| "is_snmp_call (SnmpConnect snmp) = True"
| "is_snmp_call (SnmpWalkAll snmp oid) = True"
| "is_snmp_call SnmpClose = True"

subsection \<open>An instance to run the model on\<close>

text \<open>
  On strings of ASCII characters \<^verbatim>\<open>strings.ToLower\<close> maps the letters A to Z to a to z,
  and \<^verbatim>\<open>strings.EqualFold\<close> compares the strings after that mapping.
\<close>

definition ascii_lower :: "char \<Rightarrow> char" where
  "ascii_lower c =
     (case map_of (zip ''ABCDEFGHIJKLMNOPQRSTUVWXYZ'' ''abcdefghijklmnopqrstuvwxyz'') c of
        None \<Rightarrow> c
      | Some l \<Rightarrow> l)"

text \<open>
  A reader of plain decimal notation, an optional sign, digits and at most one decimal
  point among them: it returns the digits as an integer and the number of digits after
  the point, so \<open>19.8\<close> is \<open>(198, 1)\<close>. It stands in for \<^verbatim>\<open>strconv.ParseFloat\<close>, which also
  reads exponents, hexadecimal notation, infinities and NaN, and rounds to a float32.
\<close>

definition digit_of :: "char \<Rightarrow> nat option" where
  "digit_of c = map_of (zip ''0123456789'' [0, 1, 2, 3, 4, 5, 6, 7, 8, 9]) c"

fun digits_value :: "nat \<Rightarrow> string \<Rightarrow> nat option" where
  "digits_value acc [] = Some acc"
| "digits_value acc (c # cs) =
     (case digit_of c of
        None \<Rightarrow> None
      | Some d \<Rightarrow> digits_value (10 * acc + d) cs)"

definition read_decimal :: "string \<Rightarrow> (int \<times> nat) option" where
  "read_decimal s =
     (let (neg, body) =
            (case s of
               [] \<Rightarrow> (False, [])
             | c # r \<Rightarrow>
                 if c = CHR ''-'' then (True, r)
                 else if c = CHR ''+'' then (False, r)
                 else (False, s));
          whole = takeWhile (\<lambda>c. c \<noteq> CHR ''.'') body;
          frac = drop 1 (dropWhile (\<lambda>c. c \<noteq> CHR ''.'') body)
      in if whole @ frac = [] then None
         else (case digits_value 0 (whole @ frac) of
                 None \<Rightarrow> None
               | Some m \<Rightarrow> Some (if neg then - int m else int m, length frac)))"

definition ascii_stdlib :: "(int \<times> nat) stdlib" where
  "ascii_stdlib =
     \<lparr>ParseFloat32 = read_decimal,
      ToLower = map ascii_lower,
      EqualFold = (\<lambda>s t. map ascii_lower s = map ascii_lower t)\<rparr>"

text \<open>
  Three networks: one whose agent answers the walk with the given octet strings after
  \<open>n\<close> retries, one that cannot be reached, one that times out on every attempt.
\<close>

definition octets :: "string \<Rightarrow> SnmpPDU" where
  "octets s = \<lparr>Name = walk_oid, Value = BytesVal s\<rparr>"

definition answering :: "nat \<Rightarrow> SnmpPDU list \<Rightarrow> network" where
  "answering n data = \<lparr>Connect = (\<lambda>snmp. None), WalkAll = (\<lambda>snmp oid. (n, Inr data))\<rparr>"

definition unreachable :: network where
  "unreachable =
     \<lparr>Connect = (\<lambda>snmp. Some ''no route to host''),
      WalkAll = (\<lambda>snmp oid. (0, Inr []))\<rparr>"

definition timing_out :: network where
  "timing_out =
     \<lparr>Connect = (\<lambda>snmp. None),
      WalkAll = (\<lambda>snmp oid. (3, Inl ''request timeout (after 3 retries)''))\<rparr>"

definition example_config :: config where
  "example_config =
     \<lparr>Targets = [\<lparr>IP = ''10.0.0.1'', Room = ''Lab''\<rparr>, \<lparr>IP = ''10.0.0.2'', Room = ''Attic''\<rparr>],
      Community = ''public''\<rparr>"

definition one_target :: "string \<Rightarrow> Values" where
  "one_target key = [''target'' \<mapsto> [key]]"



text \<open>A walked variable binding whose value is neither a string nor a byte slice.\<close>

definition other_leaf :: SnmpPDU where
  "other_leaf = \<lparr>Name = walk_oid, Value = OtherVal\<rparr>"

section \<open>Properties\<close>

declare digits10.simps [simp del]

subsection \<open>The resolution loop and the handler\<close>

lemma resolve_find:
  "resolve L ts key =
     (case find (matches L key) ts of None \<Rightarrow> ([], []) | Some x \<Rightarrow> (Target.Room x, IP x))"
  by (induction ts) (simp_all add: matches_def)

lemma resolve_target_find:
  "resolve_target L ts key =
     (case find (matches L key) ts of
        None \<Rightarrow> None
      | Some x \<Rightarrow> if IP x = [] then None else Some x)"
  by (simp add: resolve_target_def resolve_find split: option.split)

lemma well_formed_iff:
  "well_formed query \<longleftrightarrow> (\<exists>v. v \<noteq> [] \<and> values_of query ''target'' = [v])"
  by (auto simp: well_formed_def split: list.splits)

lemma Get_single: "values_of query key = [v] \<Longrightarrow> Get query key = v"
  by (simp add: Get_def)

lemma handler_rejects:
  "\<not> well_formed query \<Longrightarrow>
   handler L net cfg query =
     (\<lparr>StatusCode = StatusBadRequest,
       Body = Message (CHR 0x27 # ''target'' @ CHR 0x27 # '' parameter must be specified once'')\<rparr>,
      [])"
  by (auto simp: handler_def well_formed_def Get_def split: list.splits)

lemma handler_accepts:
  assumes "values_of query ''target'' = [key]" and "key \<noteq> []"
  shows "handler L net cfg query =
     (case resolve_target L (Targets cfg) key of
        None \<Rightarrow>
          (\<lparr>StatusCode = 404, Body = Message ''Not found''\<rparr>,
           [Log ErrorLevel ''No target found'' [(''target'', key)]])
      | Some T \<Rightarrow>
          (\<lparr>StatusCode = StatusOK,
            Body = Exposition
              (fst (Collector_Collect L net
                 \<lparr>Ip = IP T, Collector.Community = config.Community cfg, Room = Target.Room T\<rparr>))\<rparr>,
           snd (Collector_Collect L net
                 \<lparr>Ip = IP T, Collector.Community = config.Community cfg, Room = Target.Room T\<rparr>)))"
  using assms
  by (simp add: handler_def Get_single resolve_target_def split: prod.splits)

lemma Collect_connect_error:
  "Connect net (snmp_session c) = Some err \<Longrightarrow>
   Collector_Collect L net c =
     ([], [SnmpConnect (snmp_session c),
           Log ErrorLevel ''Error connecting to SNMP target'' [(''ip'', Ip c), (''error'', err)]])"
  by (simp add: Collector_Collect_def Let_def)

lemma Collect_walk_error:
  "Connect net (snmp_session c) = None \<Longrightarrow>
   WalkAll net (snmp_session c) walk_oid = (n, Inl err) \<Longrightarrow>
   Collector_Collect L net c =
     ([], [SnmpConnect (snmp_session c), SnmpWalkAll (snmp_session c) walk_oid]
          @ replicate n (Log WarnLevel ''SNMP retry'' [(''ip'', Ip c)])
          @ [Log ErrorLevel ''Error walking SNMP data'' [(''ip'', Ip c), (''error'', err)],
             SnmpClose])"
  by (simp add: Collector_Collect_def Let_def)

lemma Collect_walked:
  "Connect net (snmp_session c) = None \<Longrightarrow>
   WalkAll net (snmp_session c) walk_oid = (n, Inr data) \<Longrightarrow>
   Collector_Collect L net c =
     (collect_loop L c 0 data,
      [SnmpConnect (snmp_session c), SnmpWalkAll (snmp_session c) walk_oid]
        @ replicate n (Log WarnLevel ''SNMP retry'' [(''ip'', Ip c)])
        @ [SnmpClose])"
  by (simp add: Collector_Collect_def Let_def)

lemma Collect_cases:
  obtains (connect_error) err where "Connect net (snmp_session c) = Some err"
  | (walk_error) n err where "Connect net (snmp_session c) = None"
      and "WalkAll net (snmp_session c) walk_oid = (n, Inl err)"
  | (walked) n data where "Connect net (snmp_session c) = None"
      and "WalkAll net (snmp_session c) walk_oid = (n, Inr data)"
proof (cases "Connect net (snmp_session c)")
  case None
  show ?thesis
  proof (cases "WalkAll net (snmp_session c) walk_oid")
    case (Pair n r)
    with None walk_error walked show ?thesis by (cases r) auto
  qed
next
  case (Some err)
  with connect_error show ?thesis by blast
qed

lemma Collect_fails:
  "walker_fails net c \<Longrightarrow> fst (Collector_Collect L net c) = []"
  by (cases net c rule: Collect_cases)
     (simp_all add: walker_fails_def Collect_connect_error Collect_walk_error)

lemma Collect_error_logged:
  "Log ErrorLevel m fs \<in> set (snd (Collector_Collect L net c)) \<Longrightarrow> fst (Collector_Collect L net c) = []"
  by (cases net c rule: Collect_cases)
     (simp_all add: Collect_connect_error Collect_walk_error Collect_walked)


subsection \<open>The answers of the handler\<close>

text \<open>
  Claim C6. The handler answers 400 exactly when the request does not carry one single,
  non-empty \<^verbatim>\<open>target\<close> parameter. Then the answer is the same for every configuration
  and every network and nothing else happens: no log entry and no call of the SNMP
  library. No value, two or more values, and one empty value are three such cases.
\<close>

theorem bad_request_iff_not_one_target:
  "(StatusCode (fst (handler L net cfg query)) = 400
      \<longleftrightarrow> \<not> (\<exists>v. v \<noteq> [] \<and> values_of query ''target'' = [v]))
   \<and> (\<not> (\<exists>v. v \<noteq> [] \<and> values_of query ''target'' = [v]) \<longrightarrow>
        handler L net cfg query =
          (\<lparr>StatusCode = 400,
            Body = Message
              (CHR 0x27 # ''target'' @ CHR 0x27 # '' parameter must be specified once'')\<rparr>,
           []))
   \<and> (values_of query ''target'' = [] \<longrightarrow> StatusCode (fst (handler L net cfg query)) = 400)
   \<and> (2 \<le> length (values_of query ''target'') \<longrightarrow>
        StatusCode (fst (handler L net cfg query)) = 400)
   \<and> (values_of query ''target'' = [[]] \<longrightarrow> StatusCode (fst (handler L net cfg query)) = 400)"
proof -
  have rejected: "handler L net cfg query =
          (\<lparr>StatusCode = 400,
            Body = Message
              (CHR 0x27 # ''target'' @ CHR 0x27 # '' parameter must be specified once'')\<rparr>,
           [])" if "\<not> well_formed query"
    using handler_rejects [OF that] by (simp add: StatusBadRequest_def)
  have accepted: "StatusCode (fst (handler L net cfg query)) \<noteq> 400" if "well_formed query"
  proof -
    from that obtain key where "key \<noteq> []" and "values_of query ''target'' = [key]"
      by (auto simp: well_formed_iff)
    then show ?thesis
      by (simp add: handler_accepts StatusOK_def split: option.split)
  qed
  have iff: "StatusCode (fst (handler L net cfg query)) = 400 \<longleftrightarrow> \<not> well_formed query"
    using rejected accepted by auto
  have c1: "StatusCode (fst (handler L net cfg query)) = 400
      \<longleftrightarrow> \<not> (\<exists>v. v \<noteq> [] \<and> values_of query ''target'' = [v])"
    using iff by (simp only: well_formed_iff)
  have c2: "\<not> (\<exists>v. v \<noteq> [] \<and> values_of query ''target'' = [v]) \<longrightarrow>
        handler L net cfg query =
          (\<lparr>StatusCode = 400,
            Body = Message
              (CHR 0x27 # ''target'' @ CHR 0x27 # '' parameter must be specified once'')\<rparr>,
           [])"
    using rejected by (simp only: well_formed_iff) blast
  have c3: "values_of query ''target'' = [] \<longrightarrow> StatusCode (fst (handler L net cfg query)) = 400"
    using iff by (simp add: well_formed_def)
  have c4: "2 \<le> length (values_of query ''target'') \<longrightarrow>
        StatusCode (fst (handler L net cfg query)) = 400"
    using iff by (auto simp: well_formed_def split: list.splits)
  have c5: "values_of query ''target'' = [[]] \<longrightarrow>
        StatusCode (fst (handler L net cfg query)) = 400"
    using iff by (simp add: well_formed_def)
  from c1 c2 c3 c4 c5 show ?thesis by blast
qed

text \<open>
  A request with two values of \<^verbatim>\<open>target\<close> is answered by 400; a request with the single
  value \<open>lab\<close> is not.
\<close>

theorem bad_request_witness:
  "values_of [''target'' \<mapsto> [''lab'', ''attic'']] ''target'' = [''lab'', ''attic'']
   \<and> handler ascii_stdlib (answering 0 [octets ''21.5'']) example_config
        [''target'' \<mapsto> [''lab'', ''attic'']] =
          (\<lparr>StatusCode = 400,
            Body = Message
              (CHR 0x27 # ''target'' @ CHR 0x27 # '' parameter must be specified once'')\<rparr>,
           [])
   \<and> StatusCode (fst (handler ascii_stdlib (answering 0 [octets ''21.5'']) example_config
        (one_target ''lab''))) \<noteq> 400"
  using bad_request_iff_not_one_target
          [of ascii_stdlib "answering 0 [octets ''21.5'']" example_config
              "[''target'' \<mapsto> [''lab'', ''attic'']]"]
        bad_request_iff_not_one_target
          [of ascii_stdlib "answering 0 [octets ''21.5'']" example_config "one_target ''lab''"]
  by (simp add: values_of_def one_target_def)

text \<open>
  Claim C7. When a request that passes the validation has a key that matches no
  configured record, the answer is 404 and the events are a single log entry: the SNMP
  library is not called.
\<close>

theorem unresolved_key_is_not_found:
  assumes "values_of query ''target'' = [key]" and "key \<noteq> []"
    and "\<forall>x \<in> set (Targets cfg). \<not> matches L key x"
  shows "resolve_target L (Targets cfg) key = None
    \<and> handler L net cfg query =
        (\<lparr>StatusCode = 404, Body = Message ''Not found''\<rparr>,
         [Log ErrorLevel ''No target found'' [(''target'', key)]])
    \<and> filter is_snmp_call (snd (handler L net cfg query)) = []"
proof -
  from assms(3) have "find (matches L key) (Targets cfg) = None"
    by (simp add: find_None_iff)
  then have none: "resolve_target L (Targets cfg) key = None"
    by (simp add: resolve_target_find)
  with assms(1,2) show ?thesis
    by (simp add: handler_accepts)
qed

text \<open>The key \<open>cellar\<close> matches neither room nor address of the example configuration.\<close>

theorem unresolved_key_witness:
  "values_of (one_target ''cellar'') ''target'' = [''cellar'']
   \<and> resolve_target ascii_stdlib (Targets example_config) ''cellar'' = None
   \<and> handler ascii_stdlib (answering 0 [octets ''21.5'']) example_config (one_target ''cellar'') =
        (\<lparr>StatusCode = 404, Body = Message ''Not found''\<rparr>,
         [Log ErrorLevel ''No target found'' [(''target'', ''cellar'')]])"
proof -
  have q: "values_of (one_target ''cellar'') ''target'' = [''cellar'']"
    by (simp add: values_of_def one_target_def)
  have k: "''cellar'' \<noteq> []" by simp
  have m: "\<forall>x \<in> set (Targets example_config). \<not> matches ascii_stdlib ''cellar'' x"
    by (simp add: example_config_def matches_def ascii_stdlib_def ascii_lower_def)
  show ?thesis
    using q unresolved_key_is_not_found [OF q k m, of "answering 0 [octets ''21.5'']"] by simp
qed




text \<open>
  Claim C5. When the walker fails, at \<^verbatim>\<open>Connect\<close> or at \<^verbatim>\<open>WalkAll\<close>, \<^verbatim>\<open>Collect\<close> logs
  an error and sends no sample at all; and when the collector is the one the handler built
  for a resolved request, the answer of the handler is status 200 with no sample in it.
\<close>

theorem walker_failure_is_empty_success:
  assumes "walker_fails net c"
  shows "fst (Collector_Collect L net c) = []
    \<and> (\<exists>m fs. Log ErrorLevel m fs \<in> set (snd (Collector_Collect L net c)))
    \<and> (\<forall>cfg query key T.
          values_of query ''target'' = [key] \<and> key \<noteq> []
          \<and> resolve_target L (Targets cfg) key = Some T
          \<and> c = \<lparr>Ip = IP T, Collector.Community = config.Community cfg, Room = Target.Room T\<rparr>
          \<longrightarrow> fst (handler L net cfg query) = \<lparr>StatusCode = 200, Body = Exposition []\<rparr>)"
proof -
  have none: "fst (Collector_Collect L net c) = []"
    using assms by (rule Collect_fails)
  have logged: "\<exists>m fs. Log ErrorLevel m fs \<in> set (snd (Collector_Collect L net c))"
  proof (cases net c rule: Collect_cases)
    case (connect_error err)
    then show ?thesis by (auto simp: Collect_connect_error [where L = L])
  next
    case (walk_error n err)
    then show ?thesis by (auto simp: Collect_walk_error [where L = L])
  next
    case (walked n data)
    with assms show ?thesis by (simp add: walker_fails_def)
  qed
  have served: "fst (handler L net cfg query) = \<lparr>StatusCode = 200, Body = Exposition []\<rparr>"
    if "values_of query ''target'' = [key]" and "key \<noteq> []"
      and "resolve_target L (Targets cfg) key = Some T"
      and "c = \<lparr>Ip = IP T, Collector.Community = config.Community cfg, Room = Target.Room T\<rparr>"
    for cfg query key T
    using that none by (simp add: handler_accepts StatusOK_def)
  from none logged served show ?thesis by blast
qed

text \<open>
  The agent of the attic times out on every attempt: three retries and an error are
  logged, and the scrape is answered by status 200 without a sample.
\<close>

theorem walker_failure_witness:
  "walker_fails timing_out \<lparr>Ip = ''10.0.0.2'', Community = ''public'', Room = ''Attic''\<rparr>
   \<and> walker_fails unreachable \<lparr>Ip = ''10.0.0.2'', Community = ''public'', Room = ''Attic''\<rparr>
   \<and> fst (Collector_Collect ascii_stdlib timing_out
        \<lparr>Ip = ''10.0.0.2'', Community = ''public'', Room = ''Attic''\<rparr>) = []
   \<and> fst (handler ascii_stdlib timing_out example_config (one_target ''attic''))
        = \<lparr>StatusCode = 200, Body = Exposition []\<rparr>"
proof -
  let ?c = "\<lparr>Ip = ''10.0.0.2'', Community = ''public'', Room = ''Attic''\<rparr>"
  have t: "walker_fails timing_out ?c"
    by (simp add: walker_fails_def timing_out_def)
  have u: "walker_fails unreachable ?c"
    by (simp add: walker_fails_def unreachable_def)
  have q: "values_of (one_target ''attic'') ''target'' = [''attic'']"
    by (simp add: values_of_def one_target_def)
  have r: "resolve_target ascii_stdlib (Targets example_config) ''attic''
        = Some \<lparr>IP = ''10.0.0.2'', Room = ''Attic''\<rparr>"
    by (simp add: resolve_target_def example_config_def ascii_stdlib_def ascii_lower_def)
  have c: "config.Community example_config = ''public''"
    by (simp add: example_config_def)
  from walker_failure_is_empty_success [OF t, of ascii_stdlib] q r c t u
  show ?thesis by simp
qed

subsection \<open>The resolver\<close>





subsection \<open>The library functions on strings\<close>


lemma ReplaceAll_char:
  "ReplaceAll s [a] [b] = map (\<lambda>c. if c = a then b else c) s"
  by (induction s) auto

lemma prefix_map_other:
  "a \<notin> set e \<Longrightarrow> b \<notin> set e \<Longrightarrow>
   prefix e (map (\<lambda>c. if c = a then b else c) s) = prefix e s"
proof (induction e arbitrary: s)
  case Nil
  then show ?case by simp
next
  case (Cons y e)
  then show ?case by (cases s) auto
qed

lemma strip_leading_map:
  assumes "\<forall>e\<in>set rs. a \<notin> set e \<and> b \<notin> set e"
  shows "strip_leading rs (map (\<lambda>c. if c = a then b else c) s)
           = map (\<lambda>c. if c = a then b else c) (strip_leading rs s)"
  using assms
proof (induction rs s rule: strip_leading.induct)
  case (1 rs)
  then show ?case by simp
next
  case (2 rs c s)
  let ?f = "\<lambda>c. if c = a then b else c"
  have same: "find (\<lambda>e. prefix e (?f c # map ?f s)) rs = find (\<lambda>e. prefix e (c # s)) rs"
  proof (rule find_cong)
    show "rs = rs" by simp
  next
    fix e assume "e \<in> set rs"
    with "2.prems" have "a \<notin> set e" "b \<notin> set e" by auto
    then show "prefix e (?f c # map ?f s) = prefix e (c # s)"
      using prefix_map_other [of a e b "c # s"] by simp
  qed
  show ?case
  proof (cases "find (\<lambda>e. prefix e (c # s)) rs")
    case None
    with same show ?thesis by simp
  next
    case (Some e)
    with "2.IH" [OF Some "2.prems"] same show ?thesis
      by (simp add: drop_map)
  qed
qed

lemma space_runes_no_separator:
  "\<forall>e\<in>set space_runes. CHR '','' \<notin> set e \<and> CHR ''.'' \<notin> set e"
  by (simp add: space_runes_def)

lemma TrimSpace_map_separator:
  "TrimSpace (map (\<lambda>c. if c = CHR '','' then CHR ''.'' else c) s)
     = map (\<lambda>c. if c = CHR '','' then CHR ''.'' else c) (TrimSpace s)"
proof -
  let ?f = "\<lambda>c. if c = CHR '','' then CHR ''.'' else c"
  have rev_runes: "\<forall>e\<in>set (map rev space_runes). CHR '','' \<notin> set e \<and> CHR ''.'' \<notin> set e"
    using space_runes_no_separator by simp
  have left: "TrimLeftSpace (map ?f t) = map ?f (TrimLeftSpace t)" for t
    unfolding TrimLeftSpace_def by (rule strip_leading_map [OF space_runes_no_separator])
  have right: "TrimRightSpace (map ?f t) = map ?f (TrimRightSpace t)" for t
  proof -
    have "TrimRightSpace (map ?f t) = rev (strip_leading (map rev space_runes) (map ?f (rev t)))"
      by (simp only: TrimRightSpace_def rev_map)
    also have "\<dots> = rev (map ?f (strip_leading (map rev space_runes) (rev t)))"
      by (simp only: strip_leading_map [OF rev_runes])
    also have "\<dots> = map ?f (TrimRightSpace t)"
      by (simp only: TrimRightSpace_def rev_map)
    finally show ?thesis .
  qed
  show ?thesis
    by (simp only: TrimSpace_def left right)
qed

lemma TrimSpace_ReplaceAll:
  "TrimSpace (ReplaceAll s '','' ''.'') = ReplaceAll (TrimSpace s) '','' ''.''"
  by (simp add: ReplaceAll_char TrimSpace_map_separator)

lemma TrimSpace_Nil: "TrimSpace [] = []"
  by (simp add: TrimSpace_def TrimLeftSpace_def TrimRightSpace_def)

lemma collect_loop_append:
  "collect_loop L c x (ps @ qs) = collect_loop L c x ps @ collect_loop L c (x + length ps) qs"
  by (induction ps arbitrary: x) (simp_all split: option.split)

subsection \<open>The value parser\<close>



lemma parse_of_text:
  "\<not> Contains (leaf_text v) ''--'' \<Longrightarrow>
   parse L v = ParseFloat32 L (TrimSpace (ReplaceAll (leaf_text v) '','' ''.''))"
  by (simp add: parse_def)

lemma TrimSpace_19_8: "TrimSpace ''19.8'' = ''19.8''"
  by (simp add: TrimSpace_def TrimLeftSpace_def TrimRightSpace_def space_runes_def)

lemma TrimSpace_21_5: "TrimSpace ''21.5'' = ''21.5''"
  by (simp add: TrimSpace_def TrimLeftSpace_def TrimRightSpace_def space_runes_def)


lemma parse_19_8: "parse L (StringVal ''19,8'') = ParseFloat32 L ''19.8''"
  by (simp add: parse_def leaf_text_def TrimSpace_19_8)

lemma parse_21_5: "parse L (StringVal ''21.5'') = ParseFloat32 L ''21.5''"
  by (simp add: parse_def leaf_text_def TrimSpace_21_5)


lemma parse_hyphens: "parse L (StringVal ''--'') = None"
  by (simp add: parse_def leaf_text_def)

lemma parse_bytes: "parse L (BytesVal s) = parse L (StringVal s)"
  by (simp add: parse_def leaf_text_def)

lemma parse_other: "parse L OtherVal = ParseFloat32 L []"
  by (simp add: parse_def leaf_text_def TrimSpace_Nil)

lemma collect_loop_skip:
  assumes "parse L (Value p) = None"
  shows "collect_loop L c x (before @ p # after)
    = collect_loop L c x before @ collect_loop L c (x + length before + 1) after"
  using assms by (simp add: collect_loop_append)



subsection \<open>The loop of Collect\<close>

lemma upt_filter_Suc:
  "filter P [0..<Suc n] = (if P 0 then [0] else []) @ map Suc (filter (P \<circ> Suc) [0..<n])"
proof -
  have "[0..<Suc n] = 0 # map Suc [0..<n]"
    by (simp add: upt_conv_Cons map_Suc_upt del: upt_Suc)
  then show ?thesis
    by (simp add: filter_map del: upt_Suc)
qed

lemma collect_loop_positions:
  "collect_loop L c x ps =
     map (\<lambda>i. \<lparr>room_label = ToLower L (Collector.Room c),
               sensor_label = Itoa (int (x + i) + 1),
               val = the (parse L (Value (ps ! i)))\<rparr>)
       (filter (\<lambda>i. parse L (Value (ps ! i)) \<noteq> None) [0..<length ps])"
proof (induction ps arbitrary: x)
  case Nil
  then show ?case by simp
next
  case (Cons p ps)
  show ?case
    unfolding length_Cons upt_filter_Suc
    by (cases "parse L (Value p)") (simp_all add: Cons.IH comp_def del: upt_Suc)
qed

lemma digit_of_nth:
  assumes "d < 10"
  shows "digit_of (''0123456789'' ! d) = Some d"
proof -
  from assms have "d = 0 \<or> d = 1 \<or> d = 2 \<or> d = 3 \<or> d = 4 \<or> d = 5 \<or> d = 6 \<or> d = 7
      \<or> d = 8 \<or> d = 9"
    by arith
  then show ?thesis
    by (elim disjE) (simp_all add: digit_of_def)
qed

lemma digits_value_append:
  "digits_value acc (xs @ ys) =
     (case digits_value acc xs of None \<Rightarrow> None | Some m \<Rightarrow> digits_value m ys)"
  by (induction xs arbitrary: acc) (simp_all split: option.split)

lemma digits_value_digits10: "digits_value 0 (digits10 n) = Some n"
proof (induction n rule: digits10.induct)
  case (1 n)
  show ?case
  proof (cases "n < 10")
    case True
    then show ?thesis
      by (subst digits10.simps) (simp add: digit_of_nth)
  next
    case False
    with "1.IH" have "digits_value 0 (digits10 (n div 10)) = Some (n div 10)"
      by simp
    with False show ?thesis
      by (subst digits10.simps) (simp add: digits_value_append digit_of_nth)
  qed
qed

lemma Itoa_position_inj: "Itoa (int i + 1) = Itoa (int j + 1) \<Longrightarrow> i = j"
proof -
  assume eq: "Itoa (int i + 1) = Itoa (int j + 1)"
  have "Itoa (int k + 1) = digits10 (Suc k)" for k
    by (simp add: Itoa_def nat_add_distrib)
  with eq have "digits10 (Suc i) = digits10 (Suc j)"
    by simp
  then have "digits_value 0 (digits10 (Suc i)) = digits_value 0 (digits10 (Suc j))"
    by simp
  then show "i = j"
    by (simp add: digits_value_digits10)
qed

lemma collect_loop_labels_distinct:
  "distinct (map sensor_label (collect_loop L c 0 ps))"
proof -
  have "inj_on (\<lambda>i. Itoa (int i + 1)) A" for A
    by (rule inj_onI) (rule Itoa_position_inj)
  then show ?thesis
    by (simp add: collect_loop_positions distinct_map comp_def)
qed

lemma parse_leaf_text: "parse L v = parse L (StringVal (leaf_text v))"
  by (simp add: parse_def leaf_text_def)

lemma collect_loop_example:
  assumes "ParseFloat32 L ''21.5'' = Some a" and "ParseFloat32 L ''19.8'' = Some b"
    and "map (\<lambda>p. leaf_text (Value p)) ps = [''21.5'', ''--'', ''19,8'']"
  shows "collect_loop L c 0 ps =
     [\<lparr>room_label = ToLower L (Collector.Room c), sensor_label = ''1'', val = a\<rparr>,
      \<lparr>room_label = ToLower L (Collector.Room c), sensor_label = ''3'', val = b\<rparr>]"
proof -
  from assms(3) obtain p1 p2 p3 where ps: "ps = [p1, p2, p3]"
    and texts: "leaf_text (Value p1) = ''21.5''" "leaf_text (Value p2) = ''--''"
      "leaf_text (Value p3) = ''19,8''"
    by (auto simp: map_eq_Cons_conv)
  have "parse L (Value p1) = Some a" "parse L (Value p2) = None" "parse L (Value p3) = Some b"
    using assms(1,2) texts
    by (simp_all add: parse_leaf_text [of L "Value p1"] parse_leaf_text [of L "Value p2"]
        parse_leaf_text [of L "Value p3"] parse_21_5 parse_hyphens parse_19_8)
  then show ?thesis
    by (simp add: ps Itoa_def digits10.simps)
qed

text \<open>
  Claim C1. When the walk succeeds, \<^verbatim>\<open>Collect\<close> sends one sample for every leaf that
  the value parser reads, in the order of the walk: its room label is the lower-case form
  of the room of the collector, its sensor label the decimal form of the position of the
  leaf in the walk, counted from one, and its value what the parser read. A leaf that is
  skipped takes its position with it, and no two samples have the same sensor label. For
  a walk of the three texts \<open>21.5\<close>, \<open>--\<close> and \<open>19,8\<close>, where the library reads \<open>21.5\<close>
  as \<open>a\<close> and \<open>19.8\<close> as \<open>b\<close>, the samples are two: sensor 1 with \<open>a\<close> and sensor 3
  with \<open>b\<close>.
\<close>

theorem samples_by_walk_position:
  assumes "Connect net (snmp_session c) = None"
    and "WalkAll net (snmp_session c) walk_oid = (n, Inr data)"
  shows "fst (Collector_Collect L net c) =
      map (\<lambda>i. \<lparr>room_label = ToLower L (Collector.Room c),
                sensor_label = Itoa (int i + 1),
                val = the (parse L (Value (data ! i)))\<rparr>)
        (filter (\<lambda>i. parse L (Value (data ! i)) \<noteq> None) [0..<length data])
    \<and> distinct (map sensor_label (fst (Collector_Collect L net c)))
    \<and> (ParseFloat32 L ''21.5'' = Some a \<and> ParseFloat32 L ''19.8'' = Some b
        \<and> map (\<lambda>p. leaf_text (Value p)) data = [''21.5'', ''--'', ''19,8'']
        \<longrightarrow> fst (Collector_Collect L net c) =
          [\<lparr>room_label = ToLower L (Collector.Room c), sensor_label = ''1'', val = a\<rparr>,
           \<lparr>room_label = ToLower L (Collector.Room c), sensor_label = ''3'', val = b\<rparr>])"
proof -
  have loop: "fst (Collector_Collect L net c) = collect_loop L c 0 data"
    using assms by (simp add: Collect_walked)
  have positions: "fst (Collector_Collect L net c) =
      map (\<lambda>i. \<lparr>room_label = ToLower L (Collector.Room c),
                sensor_label = Itoa (int i + 1),
                val = the (parse L (Value (data ! i)))\<rparr>)
        (filter (\<lambda>i. parse L (Value (data ! i)) \<noteq> None) [0..<length data])"
    unfolding loop by (simp add: collect_loop_positions [of L c 0 data])
  have labels: "distinct (map sensor_label (fst (Collector_Collect L net c)))"
    unfolding loop by (rule collect_loop_labels_distinct)
  have example: "fst (Collector_Collect L net c) =
          [\<lparr>room_label = ToLower L (Collector.Room c), sensor_label = ''1'', val = a\<rparr>,
           \<lparr>room_label = ToLower L (Collector.Room c), sensor_label = ''3'', val = b\<rparr>]"
    if "ParseFloat32 L ''21.5'' = Some a" and "ParseFloat32 L ''19.8'' = Some b"
      and "map (\<lambda>p. leaf_text (Value p)) data = [''21.5'', ''--'', ''19,8'']"
    unfolding loop using that by (rule collect_loop_example)
  from positions labels example show ?thesis
    by (intro conjI impI) simp_all
qed

text \<open>
  The agent of the lab answers the walk with the three octet strings, after one retry;
  the decimal reader stands for the library.
\<close>

theorem samples_by_walk_position_witness:
  "Connect (answering 1 (map octets [''21.5'', ''--'', ''19,8'']))
      (snmp_session \<lparr>Ip = ''10.0.0.1'', Community = ''public'', Room = ''Lab''\<rparr>) = None
   \<and> WalkAll (answering 1 (map octets [''21.5'', ''--'', ''19,8'']))
      (snmp_session \<lparr>Ip = ''10.0.0.1'', Community = ''public'', Room = ''Lab''\<rparr>) walk_oid
      = (1, Inr (map octets [''21.5'', ''--'', ''19,8'']))
   \<and> ParseFloat32 ascii_stdlib ''21.5'' = Some (215, 1)
   \<and> ParseFloat32 ascii_stdlib ''19.8'' = Some (198, 1)
   \<and> fst (Collector_Collect ascii_stdlib (answering 1 (map octets [''21.5'', ''--'', ''19,8'']))
        \<lparr>Ip = ''10.0.0.1'', Community = ''public'', Room = ''Lab''\<rparr>) =
        [\<lparr>room_label = ''lab'', sensor_label = ''1'', val = (215, 1)\<rparr>,
         \<lparr>room_label = ''lab'', sensor_label = ''3'', val = (198, 1)\<rparr>]"
proof -
  let ?net = "answering 1 (map octets [''21.5'', ''--'', ''19,8''])"
  let ?c = "\<lparr>Ip = ''10.0.0.1'', Community = ''public'', Room = ''Lab''\<rparr>"
  have connect: "Connect ?net (snmp_session ?c) = None"
    by (simp add: answering_def)
  have walk: "WalkAll ?net (snmp_session ?c) walk_oid
      = (1, Inr (map octets [''21.5'', ''--'', ''19,8'']))"
    by (simp add: answering_def)
  have a: "ParseFloat32 ascii_stdlib ''21.5'' = Some (215, 1)"
    by (simp add: ascii_stdlib_def read_decimal_def digit_of_def)
  have b: "ParseFloat32 ascii_stdlib ''19.8'' = Some (198, 1)"
    by (simp add: ascii_stdlib_def read_decimal_def digit_of_def)
  have texts: "map (\<lambda>p. leaf_text (Value p)) (map octets [''21.5'', ''--'', ''19,8''])
      = [''21.5'', ''--'', ''19,8'']"
    by (simp add: octets_def leaf_text_def)
  have lower: "ToLower ascii_stdlib (Collector.Room ?c) = ''lab''"
    by (simp add: ascii_stdlib_def ascii_lower_def)
  from samples_by_walk_position [OF connect walk, of ascii_stdlib "(215, 1)" "(198, 1)"]
    a b texts
  have "fst (Collector_Collect ascii_stdlib ?net ?c) =
          [\<lparr>room_label = ToLower ascii_stdlib (Collector.Room ?c), sensor_label = ''1'',
            val = (215, 1)\<rparr>,
           \<lparr>room_label = ToLower ascii_stdlib (Collector.Room ?c), sensor_label = ''3'',
            val = (198, 1)\<rparr>]"
    by blast
  with connect walk a b lower show ?thesis
    by simp
qed

text \<open>
  Claim C9. A leaf whose value is neither a string nor a byte slice has the empty text;
  the library rejects the empty text, so the parser returns \<open>None\<close> and the leaf gives no
  sample. The leaves before it and after it give the samples they would give, the ones
  after it with the positions that count the skipped leaf; and the events of such a scrape
  are the calls of the SNMP library and the retries, without any error.
\<close>

theorem other_value_is_skipped:
  assumes "ParseFloat32 L [] = None" and "Value p = OtherVal"
  shows "leaf_text (Value p) = [] \<and> parse L (Value p) = None
    \<and> collect_loop L c x (before @ p # after)
        = collect_loop L c x before @ collect_loop L c (x + length before + 1) after
    \<and> (Connect net (snmp_session c) = None
        \<and> WalkAll net (snmp_session c) walk_oid = (n, Inr (before @ p # after))
        \<longrightarrow> Collector_Collect L net c =
          (collect_loop L c 0 before @ collect_loop L c (length before + 1) after,
           [SnmpConnect (snmp_session c), SnmpWalkAll (snmp_session c) walk_oid]
             @ replicate n (Log WarnLevel ''SNMP retry'' [(''ip'', Ip c)])
             @ [SnmpClose]))"
proof -
  have empty: "leaf_text (Value p) = []"
    using assms(2) by (simp add: leaf_text_def)
  have skipped: "parse L (Value p) = None"
    using assms by (simp add: parse_other)
  have others: "collect_loop L c x (before @ p # after)
        = collect_loop L c x before @ collect_loop L c (x + length before + 1) after" for x
    using skipped by (rule collect_loop_skip)
  have scrape: "Collector_Collect L net c =
          (collect_loop L c 0 before @ collect_loop L c (length before + 1) after,
           [SnmpConnect (snmp_session c), SnmpWalkAll (snmp_session c) walk_oid]
             @ replicate n (Log WarnLevel ''SNMP retry'' [(''ip'', Ip c)])
             @ [SnmpClose])"
    if "Connect net (snmp_session c) = None"
      and "WalkAll net (snmp_session c) walk_oid = (n, Inr (before @ p # after))"
    using that others [of 0] by (simp add: Collect_walked)
  from empty skipped others [of x] scrape show ?thesis by blast
qed

text \<open>
  An integer between two octet strings: the samples are those of the first and of the
  third leaf.
\<close>

theorem other_value_witness:
  "ParseFloat32 ascii_stdlib [] = None \<and> Value other_leaf = OtherVal
   \<and> parse ascii_stdlib (Value other_leaf) = None
   \<and> collect_loop ascii_stdlib \<lparr>Ip = ''10.0.0.1'', Community = ''public'', Room = ''Lab''\<rparr> 0
        ([octets ''21.5''] @ other_leaf # [octets ''19,8''])
      = [\<lparr>room_label = ''lab'', sensor_label = ''1'', val = (215, 1)\<rparr>,
         \<lparr>room_label = ''lab'', sensor_label = ''3'', val = (198, 1)\<rparr>]"
proof -
  let ?c = "\<lparr>Ip = ''10.0.0.1'', Community = ''public'', Room = ''Lab''\<rparr>"
  have e: "ParseFloat32 ascii_stdlib [] = None"
    by (simp add: ascii_stdlib_def read_decimal_def)
  have o: "Value other_leaf = OtherVal"
    by (simp add: other_leaf_def)
  have a: "ParseFloat32 ascii_stdlib ''21.5'' = Some (215, 1)"
    by (simp add: ascii_stdlib_def read_decimal_def digit_of_def)
  have b: "ParseFloat32 ascii_stdlib ''19.8'' = Some (198, 1)"
    by (simp add: ascii_stdlib_def read_decimal_def digit_of_def)
  have lower: "ToLower ascii_stdlib ''Lab'' = ''lab''"
    by (simp add: ascii_stdlib_def ascii_lower_def)
  have i: "Itoa 1 = ''1''" "Itoa 3 = ''3''"
    by (simp_all add: Itoa_def digits10.simps)
  from other_value_is_skipped [OF e o, of ?c 0 "[octets ''21.5'']" "[octets ''19,8'']"]
  have "parse ascii_stdlib (Value other_leaf) = None"
    and "collect_loop ascii_stdlib ?c 0 ([octets ''21.5''] @ other_leaf # [octets ''19,8''])
        = collect_loop ascii_stdlib ?c 0 [octets ''21.5'']
          @ collect_loop ascii_stdlib ?c (0 + length [octets ''21.5''] + 1) [octets ''19,8'']"
    by blast+
  with e o a b lower i show ?thesis
    by (simp add: octets_def parse_bytes parse_21_5 parse_19_8)
qed

subsection \<open>The SNMP session\<close>

text \<open>
  The parameters that \<^verbatim>\<open>Collect\<close> hands to the SNMP library. What the library does with
  them on the wire (its timing, its retries, its requests) is outside this model.
\<close>

lemma snmp_session_fields:
  "Version (snmp_session c) = Version1 \<and> Transport (snmp_session c) = ''udp''
   \<and> Port (snmp_session c) = 161 \<and> Timeout (snmp_session c) = 30 * Second
   \<and> Retries (snmp_session c) = 3 \<and> MaxRepetitions (snmp_session c) = 50
   \<and> Target (snmp_session c) = Ip c
   \<and> GoSNMP.Community (snmp_session c) = Collector.Community c"
  by (simp add: snmp_session_def)

text \<open>
  A scrape depends on the network only through the answers to its own session.
\<close>

lemma Collect_cong_network:
  assumes "Connect net (snmp_session c) = Connect net' (snmp_session c)"
    and "WalkAll net (snmp_session c) walk_oid = WalkAll net' (snmp_session c) walk_oid"
  shows "Collector_Collect L net c = Collector_Collect L net' c"
  by (simp only: Collector_Collect_def Let_def assms)

text \<open>The retries of a walk that succeeds change the log and nothing else.\<close>

lemma Collect_retries_logged:
  assumes "Connect net (snmp_session c) = None"
    and "WalkAll net (snmp_session c) walk_oid = (n, Inr data)"
  shows "fst (Collector_Collect L net c) = collect_loop L c 0 data"
    and "filter (\<lambda>e. \<not> is_snmp_call e) (snd (Collector_Collect L net c))
      = replicate n (Log WarnLevel ''SNMP retry'' [(''ip'', Ip c)])"
  using assms by (simp_all add: Collect_walked)

end
